theory Spec2Isabelle
  imports Main "HOL-Library.Word" "HOL-Library.Multiset"
begin

section \<open>Data model\<close>

text \<open>
  The service keeps two MongoDB collections, \<^verbatim>\<open>events\<close> and \<^verbatim>\<open>joinedEvents\<close>. A
  collection is modelled as the list of its documents in insertion order. A MongoDB
  \<^verbatim>\<open>ObjectId\<close> is twelve bytes; a \<^verbatim>\<open>Date\<close> is its time value, the number of
  milliseconds since the epoch.
\<close>

type_synonym oid = "96 word"

type_synonym instant = int

text \<open>The document that \<^verbatim>\<open>POST /events\<close> inserts, with the \<^verbatim>\<open>_id\<close> the driver adds.\<close>

record event =
  eid :: oid
  title :: string
  description :: string
  eventType :: string
  thumbnail :: string
  location :: string
  eventDate :: instant
  creatorEmail :: string
  createdAt :: instant

text \<open>
  The \<^verbatim>\<open>joinDoc\<close> that \<^verbatim>\<open>POST /join-event\<close> inserts. Its keys \<^verbatim>\<open>eventType\<close>,
  \<^verbatim>\<open>thumbnail\<close>, \<^verbatim>\<open>location\<close>, \<^verbatim>\<open>eventDate\<close> and \<^verbatim>\<open>creatorEmail\<close> carry the
  prefix \<open>j_\<close> here, since a record field is a constant of the theory.
\<close>

record joinDoc =
  jid :: oid
  eventId :: oid
  userEmail :: string
  joinedAt :: instant
  eventTitle :: string
  j_eventType :: string
  j_thumbnail :: string
  j_location :: string
  j_eventDate :: instant
  j_creatorEmail :: string

record store =
  events :: "event list"
  joinedEvents :: "joinDoc list"

definition emptyStore :: store where
  "emptyStore = \<lparr>events = [], joinedEvents = []\<rparr>"

subsection \<open>Requests\<close>

text \<open>
  A key of \<^verbatim>\<open>req.body\<close> or \<^verbatim>\<open>req.query\<close> is absent (\<^verbatim>\<open>undefined\<close>) or holds a
  string: the typed input of the specification. The test \<^verbatim>\<open>!x\<close> of the handlers is
  \<open>falsy\<close>: it holds of \<^verbatim>\<open>undefined\<close> and of the empty string.
\<close>

type_synonym field = "string option"

fun falsy :: "field \<Rightarrow> bool" where
  "falsy None = True"
| "falsy (Some s) = (s = [])"

text \<open>The string held by a field; it is applied only to fields that passed the test.\<close>

fun text_of :: "field \<Rightarrow> string" where
  "text_of None = []"
| "text_of (Some s) = s"

text \<open>The keys the handlers read from \<^verbatim>\<open>req.body\<close>.\<close>

record body =
  b_title :: field
  b_description :: field
  b_eventType :: field
  b_thumbnail :: field
  b_location :: field
  b_eventDate :: field
  b_creatorEmail :: field
  b_requestorEmail :: field
  b_eventId :: field
  b_userEmail :: field

subsection \<open>Library functions\<close>

text \<open>
  The handlers call three functions that the repository does not define:
  \<^verbatim>\<open>ObjectId.isValid\<close> and \<^verbatim>\<open>new ObjectId(s)\<close> of the MongoDB driver, and the
  JavaScript constructor \<^verbatim>\<open>new Date(s)\<close>, whose result is a time value or the invalid
  date (\<open>None\<close>). They are parameters of the model.
\<close>

record env =
  isValid :: "string \<Rightarrow> bool"
  newObjectId :: "string \<Rightarrow> oid"
  parseDate :: "string \<Rightarrow> instant option"

text \<open>\<^verbatim>\<open>new Date(x)\<close> for a body key: \<^verbatim>\<open>new Date(undefined)\<close> is the invalid date.\<close>

fun newDate :: "env \<Rightarrow> field \<Rightarrow> instant option" where
  "newDate E None = None"
| "newDate E (Some s) = parseDate E s"

subsection \<open>Replies\<close>

text \<open>
  A reply is its HTTP status with, on failure (\<^verbatim>\<open>ok: false\<close>), the message, and on
  success (\<^verbatim>\<open>ok: true\<close>) the payload. The specification's error kinds are statuses:
  ValidationError and ConflictError are 400, AuthorizationError is 403, NotFoundError is
  404, and 500 is a failure of the store that the handler caught.
\<close>

datatype payload =
  EventIdOf oid
| JoinIdOf oid
| EventDoc event
| EventList nat "event list"
| JoinedList nat "joinDoc list"
| ModifiedCount nat

datatype reply = Fail nat string | Done nat payload

fun status :: "reply \<Rightarrow> nat" where
  "status (Fail n m) = n"
| "status (Done n p) = n"

section \<open>Collection operations\<close>

text \<open>\<^verbatim>\<open>findOne({_id: i})\<close> on the events collection.\<close>

definition findEvent :: "oid \<Rightarrow> event list \<Rightarrow> event option" where
  "findEvent i es = find (\<lambda>e. eid e = i) es"

text \<open>\<^verbatim>\<open>findOne({eventId: i, userEmail: u})\<close> on the joinedEvents collection.\<close>

definition findJoined :: "oid \<Rightarrow> string \<Rightarrow> joinDoc list \<Rightarrow> joinDoc option" where
  "findJoined i u js = find (\<lambda>j. eventId j = i \<and> userEmail j = u) js"

text \<open>
  \<^verbatim>\<open>insertOne\<close>: the driver gives the document a fresh \<^verbatim>\<open>_id\<close>; the \<^verbatim>\<open>_id\<close> index of a
  collection is unique, so an \<^verbatim>\<open>_id\<close> already present makes the call throw (\<open>None\<close>).
\<close>

definition insertEvent :: "event \<Rightarrow> event list \<Rightarrow> event list option" where
  "insertEvent e es = (if eid e \<in> set (map eid es) then None else Some (es @ [e]))"

definition insertJoined :: "joinDoc \<Rightarrow> joinDoc list \<Rightarrow> joinDoc list option" where
  "insertJoined j js = (if jid j \<in> set (map jid js) then None else Some (js @ [j]))"

text \<open>
  \<^verbatim>\<open>updateOne({_id: i}, {$set: ...})\<close>: the first document with that \<^verbatim>\<open>_id\<close> is
  replaced; \<^verbatim>\<open>modifiedCount\<close> is 1 when the document changed and 0 otherwise.
\<close>

fun updateOne :: "oid \<Rightarrow> (event \<Rightarrow> event) \<Rightarrow> event list \<Rightarrow> event list \<times> nat" where
  "updateOne i f [] = ([], 0)"
| "updateOne i f (e # es) =
     (if eid e = i then (f e # es, if f e = e then 0 else 1)
      else (e # fst (updateOne i f es), snd (updateOne i f es)))"

text \<open>
  \<^verbatim>\<open>.sort({eventDate: 1}).toArray()\<close>. MongoDB fixes no order between documents of equal
  \<^verbatim>\<open>eventDate\<close>; the model keeps them in insertion order.
\<close>

definition sortEvents :: "event list \<Rightarrow> event list" where
  "sortEvents es = sort_key eventDate es"

definition sortJoined :: "joinDoc list \<Rightarrow> joinDoc list" where
  "sortJoined js = sort_key j_eventDate js"

section \<open>Handlers of routes/eventsRoutes.js\<close>

text \<open>
  Each handler takes what the request brings (the path parameter, the body, the query)
  and what the environment supplies while it runs: every reading of the clock
  (\<^verbatim>\<open>new Date()\<close>) and the \<^verbatim>\<open>_id\<close> the driver generates for an insert. A handler that
  writes returns the store after it.
\<close>

text \<open>
  The \<^verbatim>\<open>doc\<close> that \<^verbatim>\<open>POST /events\<close> builds from the body, the parsed date \<open>d\<close> and
  the reading \<open>t\<close> of the clock, with the \<^verbatim>\<open>_id\<close> \<open>i\<close> that the driver gives it.
\<close>

definition newEventDoc :: "body \<Rightarrow> instant \<Rightarrow> instant \<Rightarrow> oid \<Rightarrow> event" where
  "newEventDoc b d t i =
     \<lparr>eid = i, title = text_of (b_title b),
      description = text_of (b_description b),
      eventType = text_of (b_eventType b),
      thumbnail = text_of (b_thumbnail b),
      location = text_of (b_location b),
      eventDate = d,
      creatorEmail = text_of (b_creatorEmail b),
      createdAt = t\<rparr>"

text \<open>
  \<^verbatim>\<open>POST /events\<close>. The clock is read twice: \<open>now\<close> for the test of the date and,
  after it, \<open>t\<close> for \<^verbatim>\<open>createdAt\<close>.
\<close>

definition postEvent :: "env \<Rightarrow> store \<Rightarrow> body \<Rightarrow> instant \<Rightarrow> instant \<Rightarrow> oid \<Rightarrow> reply \<times> store" where
  "postEvent E st b now t i =
     (if falsy (b_title b) \<or> falsy (b_description b) \<or> falsy (b_eventType b)
         \<or> falsy (b_thumbnail b) \<or> falsy (b_location b) \<or> falsy (b_eventDate b)
         \<or> falsy (b_creatorEmail b)
      then (Fail 400 ''All fields are required.'', st)
      else case newDate E (b_eventDate b) of
        None \<Rightarrow> (Fail 400 ''Invalid event date.'', st)
      | Some d \<Rightarrow>
          if d \<le> now then (Fail 400 ''Event date must be a future date.'', st)
          else case insertEvent (newEventDoc b d t i) (events st) of
            None \<Rightarrow> (Fail 500 ''Failed to create event'', st)
          | Some es \<Rightarrow> (Done 201 (EventIdOf i), st\<lparr>events := es\<rparr>))"

text \<open>\<^verbatim>\<open>GET /events\<close>.\<close>

definition getEvents :: "store \<Rightarrow> reply" where
  "getEvents st =
     (let evs = sortEvents (events st) in Done 200 (EventList (length evs) evs))"

text \<open>\<^verbatim>\<open>GET /events/upcoming\<close>: the filter is \<^verbatim>\<open>{eventDate: {$gt: now}}\<close>.\<close>

definition getUpcoming :: "store \<Rightarrow> instant \<Rightarrow> reply" where
  "getUpcoming st now =
     (let evs = sortEvents (filter (\<lambda>e. now < eventDate e) (events st))
      in Done 200 (EventList (length evs) evs))"

text \<open>\<^verbatim>\<open>GET /events/user?email=...\<close>.\<close>

definition getUserEvents :: "store \<Rightarrow> field \<Rightarrow> reply" where
  "getUserEvents st email =
     (if falsy email then Fail 400 ''User email is required.''
      else let evs = sortEvents (filter (\<lambda>e. creatorEmail e = text_of email) (events st))
           in Done 200 (EventList (length evs) evs))"

text \<open>\<^verbatim>\<open>GET /events/:id\<close>.\<close>

definition getEvent :: "env \<Rightarrow> store \<Rightarrow> string \<Rightarrow> reply" where
  "getEvent E st sid =
     (if \<not> isValid E sid then Fail 400 ''Invalid event id.''
      else case findEvent (newObjectId E sid) (events st) of
        None \<Rightarrow> Fail 404 ''Event not found.''
      | Some e \<Rightarrow> Done 200 (EventDoc e))"

text \<open>\<^verbatim>\<open>PUT /events/:id\<close>.\<close>

definition putEvent :: "env \<Rightarrow> store \<Rightarrow> string \<Rightarrow> body \<Rightarrow> instant \<Rightarrow> reply \<times> store" where
  "putEvent E st sid b now =
     (if \<not> isValid E sid then (Fail 400 ''Invalid event id.'', st)
      else if falsy (b_requestorEmail b) then (Fail 400 ''requestorEmail is required.'', st)
      else case findEvent (newObjectId E sid) (events st) of
        None \<Rightarrow> (Fail 404 ''Event not found.'', st)
      | Some existing \<Rightarrow>
          if Some (creatorEmail existing) \<noteq> b_requestorEmail b
          then (Fail 403 ''You are not allowed to update this event.'', st)
          else if falsy (b_title b) \<or> falsy (b_description b) \<or> falsy (b_eventType b)
                  \<or> falsy (b_thumbnail b) \<or> falsy (b_location b) \<or> falsy (b_eventDate b)
          then (Fail 400 ''All fields are required.'', st)
          else case newDate E (b_eventDate b) of
            None \<Rightarrow> (Fail 400 ''Invalid event date.'', st)
          | Some d \<Rightarrow>
              if d \<le> now then (Fail 400 ''Event date must be a future date.'', st)
              else let r = updateOne (newObjectId E sid)
                             (\<lambda>e. e\<lparr>title := text_of (b_title b),
                                    description := text_of (b_description b),
                                    eventType := text_of (b_eventType b),
                                    thumbnail := text_of (b_thumbnail b),
                                    location := text_of (b_location b),
                                    eventDate := d\<rparr>) (events st)
                   in (Done 200 (ModifiedCount (snd r)), st\<lparr>events := fst r\<rparr>))"

section \<open>Handlers of api/index.js\<close>

text \<open>\<^verbatim>\<open>POST /join-event\<close>. The clock is read once, for \<^verbatim>\<open>joinedAt\<close>.\<close>

definition postJoinEvent :: "env \<Rightarrow> store \<Rightarrow> body \<Rightarrow> instant \<Rightarrow> oid \<Rightarrow> reply \<times> store" where
  "postJoinEvent E st b now i =
     (if falsy (b_eventId b) \<or> falsy (b_userEmail b)
      then (Fail 400 ''eventId and userEmail are required.'', st)
      else if \<not> isValid E (text_of (b_eventId b)) then (Fail 400 ''Invalid eventId.'', st)
      else case findEvent (newObjectId E (text_of (b_eventId b))) (events st) of
        None \<Rightarrow> (Fail 404 ''Event not found.'', st)
      | Some ev \<Rightarrow>
          (case findJoined (eid ev) (text_of (b_userEmail b)) (joinedEvents st) of
            Some existing \<Rightarrow> (Fail 400 ''You have already joined this event.'', st)
          | None \<Rightarrow>
              (case insertJoined
                 \<lparr>jid = i, eventId = eid ev, userEmail = text_of (b_userEmail b),
                  joinedAt = now, eventTitle = title ev, j_eventType = eventType ev,
                  j_thumbnail = thumbnail ev, j_location = location ev,
                  j_eventDate = eventDate ev, j_creatorEmail = creatorEmail ev\<rparr>
                 (joinedEvents st) of
                None \<Rightarrow> (Fail 500 ''Failed to join event.'', st)
              | Some js \<Rightarrow> (Done 201 (JoinIdOf i), st\<lparr>joinedEvents := js\<rparr>))))"

text \<open>\<^verbatim>\<open>GET /joined?email=...\<close>.\<close>

definition getJoined :: "store \<Rightarrow> field \<Rightarrow> reply" where
  "getJoined st email =
     (if falsy email then Fail 400 ''User email is required.''
      else let js = sortJoined (filter (\<lambda>j. userEmail j = text_of email) (joinedEvents st))
           in Done 200 (JoinedList (length js) js))"

section \<open>Requests in sequence\<close>

text \<open>
  The operations of the two services, each with the inputs of its handler, and the
  server answering one request after the other. The routes \<^verbatim>\<open>/\<close>, \<^verbatim>\<open>/test-db\<close> and
  \<^verbatim>\<open>/seed-demo-events\<close> are not among them: the first two write nothing and the third
  inserts demonstration events only.
\<close>

datatype request =
  PostEvent body instant instant oid
| GetEvents
| GetUpcoming instant
| GetUserEvents field
| GetEvent string
| PutEvent string body instant
| PostJoinEvent body instant oid
| GetJoined field

fun handle :: "env \<Rightarrow> store \<Rightarrow> request \<Rightarrow> reply \<times> store" where
  "handle E st (PostEvent b now t i) = postEvent E st b now t i"
| "handle E st GetEvents = (getEvents st, st)"
| "handle E st (GetUpcoming now) = (getUpcoming st now, st)"
| "handle E st (GetUserEvents email) = (getUserEvents st email, st)"
| "handle E st (GetEvent sid) = (getEvent E st sid, st)"
| "handle E st (PutEvent sid b now) = putEvent E st sid b now"
| "handle E st (PostJoinEvent b now i) = postJoinEvent E st b now i"
| "handle E st (GetJoined email) = (getJoined st email, st)"

fun serve :: "env \<Rightarrow> store \<Rightarrow> request list \<Rightarrow> store" where
  "serve E st [] = st"
| "serve E st (r # rs) = serve E (snd (handle E st r)) rs"

section \<open>An instance of the library functions\<close>

text \<open>
  For evaluating the handlers on concrete requests: identifiers are the strings of 24
  hexadecimal digits, read as a number in base 16, and two ISO 8601 dates are known to
  the parser.
\<close>

definition hexDigit :: "char \<Rightarrow> bool" where
  "hexDigit c = (let n = (of_char c :: nat) in
     (48 \<le> n \<and> n \<le> 57) \<or> (65 \<le> n \<and> n \<le> 70) \<or> (97 \<le> n \<and> n \<le> 102))"

definition hexValue :: "char \<Rightarrow> nat" where
  "hexValue c = (let n = (of_char c :: nat) in
     if n \<le> 57 then n - 48 else if n \<le> 70 then n - 55 else n - 87)"

definition hexNumber :: "string \<Rightarrow> nat" where
  "hexNumber s = foldl (\<lambda>a c. 16 * a + hexValue c) 0 s"

definition demoEnv :: env where
  "demoEnv = \<lparr>isValid = (\<lambda>s. length s = 24 \<and> list_all hexDigit s),
              newObjectId = (\<lambda>s. word_of_nat (hexNumber s)),
              parseDate = (\<lambda>s. if s = ''2030-01-01T00:00:00.000Z'' then Some 1893456000000
                               else if s = ''2020-01-01T00:00:00.000Z'' then Some 1577836800000
                               else None)\<rparr>"

definition noBody :: body where
  "noBody = \<lparr>b_title = None, b_description = None, b_eventType = None,
              b_thumbnail = None, b_location = None, b_eventDate = None,
              b_creatorEmail = None, b_requestorEmail = None, b_eventId = None,
              b_userEmail = None\<rparr>"

text \<open>The body of a well-formed \<^verbatim>\<open>PUT /events/:id\<close> sent by \<open>who\<close>.\<close>

definition editBody :: "field \<Rightarrow> body" where
  "editBody who = noBody\<lparr>b_title := Some ''Beach cleanup'',
                         b_description := Some ''Bring gloves'',
                         b_eventType := Some ''Cleanup'',
                         b_thumbnail := Some ''https://placehold.co/600x400'',
                         b_location := Some ''North beach'',
                         b_eventDate := Some ''2030-01-01T00:00:00.000Z'',
                         b_requestorEmail := who\<rparr>"

text \<open>The body of a \<^verbatim>\<open>POST /join-event\<close>.\<close>

definition joinBody :: "field \<Rightarrow> field \<Rightarrow> body" where
  "joinBody e u = noBody\<lparr>b_eventId := e, b_userEmail := u\<rparr>"

definition cleanup :: event where
  "cleanup = \<lparr>eid = 1, title = ''Cleanup'', description = ''City park cleanup drive'',
              eventType = ''Cleanup'', thumbnail = ''https://placehold.co/600x400'',
              location = ''City Park'', eventDate = 1577836800000,
              creatorEmail = ''a@x.com'', createdAt = 1570000000000\<rparr>"

definition demoStore :: store where
  "demoStore = \<lparr>events = [cleanup], joinedEvents = []\<rparr>"

text \<open>A participation of \<^verbatim>\<open>c@x.com\<close> in that event, and the store holding both.\<close>

definition cleanupJoin :: joinDoc where
  "cleanupJoin = \<lparr>jid = 7, eventId = 1, userEmail = ''c@x.com'', joinedAt = 1575000000000,
                  eventTitle = ''Cleanup'', j_eventType = ''Cleanup'',
                  j_thumbnail = ''https://placehold.co/600x400'', j_location = ''City Park'',
                  j_eventDate = 1577836800000, j_creatorEmail = ''a@x.com''\<rparr>"

definition joinedStore :: store where
  "joinedStore = \<lparr>events = [cleanup], joinedEvents = [cleanupJoin]\<rparr>"

text \<open>The body of a well-formed \<^verbatim>\<open>POST /events\<close>.\<close>

definition plantBody :: body where
  "plantBody = noBody\<lparr>b_title := Some ''Tree plantation'',
                      b_description := Some ''Plant trees in the community area'',
                      b_eventType := Some ''Plantation'',
                      b_thumbnail := Some ''https://placehold.co/600x400'',
                      b_location := Some ''Community ground'',
                      b_eventDate := Some ''2030-01-01T00:00:00.000Z'',
                      b_creatorEmail := Some ''b@x.com''\<rparr>"

section \<open>The uniqueness of participations\<close>

text \<open>No two documents of the joinedEvents collection have the same event and user.\<close>

definition uniquePairs :: "store \<Rightarrow> bool" where
  "uniquePairs st = distinct (map (\<lambda>j. (eventId j, userEmail j)) (joinedEvents st))"

section \<open>Listing upcoming events\<close>

lemma mset_sortEvents: "mset (sortEvents es) = mset es"
  by (simp add: sortEvents_def)

lemma sorted_sortEvents: "sorted (map eventDate (sortEvents es))"
  by (simp add: sortEvents_def)

text \<open>
  C8. For every store and every instant \<open>now\<close>, \<^verbatim>\<open>GET /events/upcoming\<close> answers 200
  with a list that holds exactly the events whose \<open>eventDate\<close> is strictly greater than
  \<open>now\<close> (each as often as the collection holds it), in ascending order of
  \<open>eventDate\<close>, together with its length; an event whose \<open>eventDate\<close> equals \<open>now\<close> is
  not in the list.
\<close>

theorem getUpcoming_strictly_later_sorted:
  "\<exists>evs. getUpcoming st now = Done 200 (EventList (length evs) evs)
     \<and> mset evs = filter_mset (\<lambda>e. now < eventDate e) (mset (events st))
     \<and> sorted (map eventDate evs)
     \<and> \<not> (\<exists>e. e \<in> set evs \<and> eventDate e = now)"
proof -
  let ?evs = "sortEvents (filter (\<lambda>e. now < eventDate e) (events st))"
  have "getUpcoming st now = Done 200 (EventList (length ?evs) ?evs)"
    by (simp add: getUpcoming_def Let_def)
  moreover have "mset ?evs = filter_mset (\<lambda>e. now < eventDate e) (mset (events st))"
    by (simp add: mset_sortEvents)
  moreover have "sorted (map eventDate ?evs)"
    by (rule sorted_sortEvents)
  moreover have "\<not> (\<exists>e. e \<in> set ?evs \<and> eventDate e = now)"
    by (auto simp: sortEvents_def)
  ultimately show ?thesis by blast
qed

section \<open>Malformed identifiers\<close>

text \<open>
  C3, as the code has it. For every string \<open>sid\<close> that \<^verbatim>\<open>ObjectId.isValid\<close> rejects,
  \<^verbatim>\<open>GET /events/:id\<close> and \<^verbatim>\<open>PUT /events/:id\<close> both answer 400 with the message
  \<^verbatim>\<open>Invalid event id.\<close> (a ValidationError, not the NotFoundError 404), and the update
  leaves the store as it was.
\<close>

theorem malformed_id_is_400:
  assumes "\<not> isValid E sid"
  shows "getEvent E st sid = Fail 400 ''Invalid event id.''
       \<and> putEvent E st sid b now = (Fail 400 ''Invalid event id.'', st)"
  using assms by (simp add: getEvent_def putEvent_def)

theorem malformed_id_is_400_witness:
  "\<not> isValid demoEnv ''00000000000000000000000z''
   \<and> getEvent demoEnv demoStore ''00000000000000000000000z'' = Fail 400 ''Invalid event id.''
   \<and> putEvent demoEnv demoStore ''00000000000000000000000z'' (editBody (Some ''a@x.com'')) 0
       = (Fail 400 ''Invalid event id.'', demoStore)"
proof -
  have h: "\<not> isValid demoEnv ''00000000000000000000000z''"
    by (simp add: demoEnv_def hexDigit_def)
  show ?thesis
    using h malformed_id_is_400 [OF h, of demoStore "editBody (Some ''a@x.com'')" 0]
    by simp
qed

text \<open>
  The claim as worded fails: on the malformed identifier \<^verbatim>\<open>abc\<close> neither handler
  answers 404.
\<close>

theorem malformed_id_not_404:
  "\<not> isValid demoEnv ''abc''
   \<and> status (getEvent demoEnv emptyStore ''abc'') \<noteq> 404
   \<and> status (fst (putEvent demoEnv emptyStore ''abc'' noBody 0)) \<noteq> 404"
  by (simp add: getEvent_def putEvent_def demoEnv_def)

section \<open>The order of the checks of an update\<close>

text \<open>
  C4, as the code has it. \<^verbatim>\<open>PUT /events/:id\<close> checks, in this order: that the
  identifier is well formed (400), that \<^verbatim>\<open>requestorEmail\<close> is present and non-empty
  (400), that the event exists (404), that \<^verbatim>\<open>requestorEmail\<close> is the stored
  \<^verbatim>\<open>creatorEmail\<close> (403), and that the six fields are present and the date parses and
  is later than now (400). The reply is that of the first check that fails, and 200
  when none does.
\<close>

theorem putEvent_check_order:
  "(\<not> isValid E sid \<longrightarrow>
      fst (putEvent E st sid b now) = Fail 400 ''Invalid event id.'')
   \<and> (isValid E sid \<and> falsy (b_requestorEmail b) \<longrightarrow>
      fst (putEvent E st sid b now) = Fail 400 ''requestorEmail is required.'')
   \<and> (isValid E sid \<and> \<not> falsy (b_requestorEmail b)
        \<and> findEvent (newObjectId E sid) (events st) = None \<longrightarrow>
      fst (putEvent E st sid b now) = Fail 404 ''Event not found.'')
   \<and> (\<forall>e. isValid E sid \<and> \<not> falsy (b_requestorEmail b)
        \<and> findEvent (newObjectId E sid) (events st) = Some e
        \<and> Some (creatorEmail e) \<noteq> b_requestorEmail b \<longrightarrow>
      fst (putEvent E st sid b now) = Fail 403 ''You are not allowed to update this event.'')
   \<and> (\<forall>e. isValid E sid \<and> \<not> falsy (b_requestorEmail b)
        \<and> findEvent (newObjectId E sid) (events st) = Some e
        \<and> Some (creatorEmail e) = b_requestorEmail b
        \<and> (falsy (b_title b) \<or> falsy (b_description b) \<or> falsy (b_eventType b)
           \<or> falsy (b_thumbnail b) \<or> falsy (b_location b) \<or> falsy (b_eventDate b)
           \<or> newDate E (b_eventDate b) = None
           \<or> (\<exists>d. newDate E (b_eventDate b) = Some d \<and> d \<le> now)) \<longrightarrow>
      (\<exists>m. fst (putEvent E st sid b now) = Fail 400 m))
   \<and> (\<forall>e d. isValid E sid \<and> \<not> falsy (b_requestorEmail b)
        \<and> findEvent (newObjectId E sid) (events st) = Some e
        \<and> Some (creatorEmail e) = b_requestorEmail b
        \<and> \<not> falsy (b_title b) \<and> \<not> falsy (b_description b) \<and> \<not> falsy (b_eventType b)
        \<and> \<not> falsy (b_thumbnail b) \<and> \<not> falsy (b_location b) \<and> \<not> falsy (b_eventDate b)
        \<and> newDate E (b_eventDate b) = Some d \<and> now < d \<longrightarrow>
      status (fst (putEvent E st sid b now)) = 200)"
  by (auto simp: putEvent_def Let_def split: option.splits)

theorem putEvent_check_order_witness:
  "fst (putEvent demoEnv demoStore ''abc'' (editBody (Some ''a@x.com'')) 0)
     = Fail 400 ''Invalid event id.''
   \<and> fst (putEvent demoEnv demoStore ''000000000000000000000002'' (editBody None) 0)
     = Fail 400 ''requestorEmail is required.''
   \<and> fst (putEvent demoEnv demoStore ''000000000000000000000002'' (editBody (Some ''b@x.com'')) 0)
     = Fail 404 ''Event not found.''
   \<and> fst (putEvent demoEnv demoStore ''000000000000000000000001'' (editBody (Some ''b@x.com'')) 0)
     = Fail 403 ''You are not allowed to update this event.''
   \<and> (\<exists>m. fst (putEvent demoEnv demoStore ''000000000000000000000001''
               ((editBody (Some ''a@x.com''))\<lparr>b_title := None\<rparr>) 0) = Fail 400 m)
   \<and> status (fst (putEvent demoEnv demoStore ''000000000000000000000001''
               (editBody (Some ''a@x.com'')) 0)) = 200"
  using
    putEvent_check_order [where E = demoEnv and st = demoStore and sid = "''abc''"
      and b = "editBody (Some ''a@x.com'')" and now = 0]
    putEvent_check_order [where E = demoEnv and st = demoStore
      and sid = "''000000000000000000000002''" and b = "editBody None" and now = 0]
    putEvent_check_order [where E = demoEnv and st = demoStore
      and sid = "''000000000000000000000002''" and b = "editBody (Some ''b@x.com'')" and now = 0]
    putEvent_check_order [where E = demoEnv and st = demoStore
      and sid = "''000000000000000000000001''" and b = "editBody (Some ''b@x.com'')" and now = 0]
    putEvent_check_order [where E = demoEnv and st = demoStore
      and sid = "''000000000000000000000001''"
      and b = "(editBody (Some ''a@x.com''))\<lparr>b_title := None\<rparr>" and now = 0]
    putEvent_check_order [where E = demoEnv and st = demoStore
      and sid = "''000000000000000000000001''" and b = "editBody (Some ''a@x.com'')" and now = 0]
  by (simp add: demoEnv_def hexDigit_def hexNumber_def hexValue_def findEvent_def
      demoStore_def cleanup_def editBody_def noBody_def)

text \<open>
  The claim as worded fails: with a well-formed identifier of no event and no
  \<^verbatim>\<open>requestorEmail\<close>, the reply is the 400 of the missing \<^verbatim>\<open>requestorEmail\<close>, not 404.
\<close>

theorem putEvent_requestor_before_lookup:
  "isValid demoEnv ''000000000000000000000002''
   \<and> findEvent (newObjectId demoEnv ''000000000000000000000002'') (events demoStore) = None
   \<and> b_requestorEmail (editBody None) = None
   \<and> fst (putEvent demoEnv demoStore ''000000000000000000000002'' (editBody None) 0)
       = Fail 400 ''requestorEmail is required.''"
  by (simp add: putEvent_def demoEnv_def hexDigit_def hexNumber_def hexValue_def
      findEvent_def demoStore_def cleanup_def editBody_def noBody_def)

section \<open>Only the creator updates\<close>

text \<open>
  C5, as the code has it. For every event in the store and every non-empty
  \<^verbatim>\<open>requestorEmail\<close> that differs from its \<^verbatim>\<open>creatorEmail\<close>, \<^verbatim>\<open>PUT /events/:id\<close>
  answers 403 whatever the other fields are, and the store is unchanged.
\<close>

theorem putEvent_not_creator:
  assumes "isValid E sid"
    and "findEvent (newObjectId E sid) (events st) = Some e"
    and "\<not> falsy (b_requestorEmail b)"
    and "b_requestorEmail b \<noteq> Some (creatorEmail e)"
  shows "putEvent E st sid b now
           = (Fail 403 ''You are not allowed to update this event.'', st)"
  using assms by (auto simp: putEvent_def)

theorem putEvent_not_creator_witness:
  "putEvent demoEnv demoStore ''000000000000000000000001'' (editBody (Some ''b@x.com'')) 0
     = (Fail 403 ''You are not allowed to update this event.'', demoStore)"
proof -
  have 1: "isValid demoEnv ''000000000000000000000001''"
    by (simp add: demoEnv_def hexDigit_def)
  have 2: "findEvent (newObjectId demoEnv ''000000000000000000000001'') (events demoStore)
             = Some cleanup"
    by (simp add: demoEnv_def hexNumber_def hexValue_def findEvent_def demoStore_def cleanup_def)
  have 3: "\<not> falsy (b_requestorEmail (editBody (Some ''b@x.com'')))"
    by (simp add: editBody_def noBody_def)
  have 4: "b_requestorEmail (editBody (Some ''b@x.com'')) \<noteq> Some (creatorEmail cleanup)"
    by (simp add: editBody_def noBody_def cleanup_def)
  show ?thesis
    by (rule putEvent_not_creator [OF 1 2 3 4])
qed

text \<open>
  The claim as worded fails: an empty \<^verbatim>\<open>requestorEmail\<close> differs from the stored
  \<^verbatim>\<open>creatorEmail\<close>, the other fields are valid, and the reply is 400, not 403.
\<close>

theorem putEvent_empty_requestor_not_403:
  "findEvent (newObjectId demoEnv ''000000000000000000000001'') (events demoStore)
     = Some cleanup
   \<and> b_requestorEmail (editBody (Some [])) \<noteq> Some (creatorEmail cleanup)
   \<and> putEvent demoEnv demoStore ''000000000000000000000001'' (editBody (Some [])) 0
       = (Fail 400 ''requestorEmail is required.'', demoStore)"
  by (simp add: putEvent_def demoEnv_def hexDigit_def hexNumber_def hexValue_def
      findEvent_def demoStore_def cleanup_def editBody_def noBody_def)

section \<open>The failures of a join\<close>

text \<open>
  C7. \<^verbatim>\<open>POST /join-event\<close> tells its failures apart, and none of them changes the
  store: a missing or empty \<^verbatim>\<open>eventId\<close> or \<^verbatim>\<open>userEmail\<close> is a 400; otherwise an
  \<^verbatim>\<open>eventId\<close> that is not well formed is a 400 (ValidationError, not the 404 of
  NotFoundError); otherwise a well-formed \<^verbatim>\<open>eventId\<close> of no event is a 404; otherwise
  a participation already stored for the event and the user is the 400 of the conflict.
\<close>

theorem postJoinEvent_failures:
  "(falsy (b_eventId b) \<or> falsy (b_userEmail b) \<longrightarrow>
      postJoinEvent E st b now i = (Fail 400 ''eventId and userEmail are required.'', st))
   \<and> (\<not> falsy (b_eventId b) \<and> \<not> falsy (b_userEmail b)
        \<and> \<not> isValid E (text_of (b_eventId b)) \<longrightarrow>
      postJoinEvent E st b now i = (Fail 400 ''Invalid eventId.'', st))
   \<and> (\<not> falsy (b_eventId b) \<and> \<not> falsy (b_userEmail b)
        \<and> isValid E (text_of (b_eventId b))
        \<and> findEvent (newObjectId E (text_of (b_eventId b))) (events st) = None \<longrightarrow>
      postJoinEvent E st b now i = (Fail 404 ''Event not found.'', st))
   \<and> (\<forall>ev p. \<not> falsy (b_eventId b) \<and> \<not> falsy (b_userEmail b)
        \<and> isValid E (text_of (b_eventId b))
        \<and> findEvent (newObjectId E (text_of (b_eventId b))) (events st) = Some ev
        \<and> findJoined (eid ev) (text_of (b_userEmail b)) (joinedEvents st) = Some p \<longrightarrow>
      postJoinEvent E st b now i = (Fail 400 ''You have already joined this event.'', st))"
  by (auto simp: postJoinEvent_def)

theorem postJoinEvent_failures_witness:
  "postJoinEvent demoEnv joinedStore (joinBody (Some ''000000000000000000000001'') None) 0 8
     = (Fail 400 ''eventId and userEmail are required.'', joinedStore)
   \<and> postJoinEvent demoEnv joinedStore (joinBody (Some []) (Some ''c@x.com'')) 0 8
     = (Fail 400 ''eventId and userEmail are required.'', joinedStore)
   \<and> postJoinEvent demoEnv joinedStore (joinBody (Some ''cleanup'') (Some ''c@x.com'')) 0 8
     = (Fail 400 ''Invalid eventId.'', joinedStore)
   \<and> postJoinEvent demoEnv joinedStore
       (joinBody (Some ''000000000000000000000002'') (Some ''c@x.com'')) 0 8
     = (Fail 404 ''Event not found.'', joinedStore)
   \<and> postJoinEvent demoEnv joinedStore
       (joinBody (Some ''000000000000000000000001'') (Some ''c@x.com'')) 0 8
     = (Fail 400 ''You have already joined this event.'', joinedStore)"
  using
    postJoinEvent_failures [where E = demoEnv and st = joinedStore and now = 0 and i = 8
      and b = "joinBody (Some ''000000000000000000000001'') None"]
    postJoinEvent_failures [where E = demoEnv and st = joinedStore and now = 0 and i = 8
      and b = "joinBody (Some []) (Some ''c@x.com'')"]
    postJoinEvent_failures [where E = demoEnv and st = joinedStore and now = 0 and i = 8
      and b = "joinBody (Some ''cleanup'') (Some ''c@x.com'')"]
    postJoinEvent_failures [where E = demoEnv and st = joinedStore and now = 0 and i = 8
      and b = "joinBody (Some ''000000000000000000000002'') (Some ''c@x.com'')"]
    postJoinEvent_failures [where E = demoEnv and st = joinedStore and now = 0 and i = 8
      and b = "joinBody (Some ''000000000000000000000001'') (Some ''c@x.com'')"]
  by (simp add: demoEnv_def hexDigit_def hexNumber_def hexValue_def findEvent_def
      findJoined_def joinedStore_def cleanup_def cleanupJoin_def joinBody_def noBody_def)

section \<open>A successful join\<close>

lemma findEvent_SomeD: "findEvent i es = Some e \<Longrightarrow> e \<in> set es \<and> eid e = i"
  unfolding findEvent_def by (auto simp: find_Some_iff)

lemma findJoined_None_iff:
  "findJoined i u js = None \<longleftrightarrow> (\<forall>j \<in> set js. \<not> (eventId j = i \<and> userEmail j = u))"
  unfolding findJoined_def by (auto simp: find_None_iff)

text \<open>The one path of \<^verbatim>\<open>POST /join-event\<close> that writes.\<close>

lemma postJoinEvent_inserts:
  assumes "b_eventId b = Some s" and "s \<noteq> []"
    and "b_userEmail b = Some u" and "u \<noteq> []"
    and "isValid E s"
    and "findEvent (newObjectId E s) (events st) = Some ev"
    and "findJoined (eid ev) u (joinedEvents st) = None"
    and "i \<notin> set (map jid (joinedEvents st))"
  shows "postJoinEvent E st b now i =
     (Done 201 (JoinIdOf i),
      st\<lparr>joinedEvents := joinedEvents st @
        [\<lparr>jid = i, eventId = eid ev, userEmail = u, joinedAt = now,
          eventTitle = title ev, j_eventType = eventType ev, j_thumbnail = thumbnail ev,
          j_location = location ev, j_eventDate = eventDate ev,
          j_creatorEmail = creatorEmail ev\<rparr>]\<rparr>)"
  using assms by (simp add: postJoinEvent_def insertJoined_def)

text \<open>
  C2. Let \<^verbatim>\<open>eventId\<close> be a well-formed identifier of an event \<open>ev\<close> of the store,
  \<^verbatim>\<open>userEmail\<close> a non-empty string \<open>u\<close>, with no participation stored for the pair, and
  let \<open>i\<close> be the fresh \<^verbatim>\<open>_id\<close> of the driver. Then \<^verbatim>\<open>POST /join-event\<close> answers 201
  with \<open>i\<close>, and the store after it is the store before it with one participation
  appended: that of \<open>u\<close> in \<open>ev\<close>, with \<^verbatim>\<open>joinedAt\<close> the reading of the clock and with
  the title, type, thumbnail, location, date and creator of \<open>ev\<close> as stored.
\<close>

theorem postJoinEvent_stores_snapshot:
  assumes "b_eventId b = Some s" and "s \<noteq> []"
    and "b_userEmail b = Some u" and "u \<noteq> []"
    and "isValid E s"
    and "findEvent (newObjectId E s) (events st) = Some ev"
    and "findJoined (eid ev) u (joinedEvents st) = None"
    and "i \<notin> set (map jid (joinedEvents st))"
  shows "fst (postJoinEvent E st b now i) = Done 201 (JoinIdOf i)
     \<and> events (snd (postJoinEvent E st b now i)) = events st
     \<and> joinedEvents (snd (postJoinEvent E st b now i)) = joinedEvents st @
        [\<lparr>jid = i, eventId = eid ev, userEmail = u, joinedAt = now,
          eventTitle = title ev, j_eventType = eventType ev, j_thumbnail = thumbnail ev,
          j_location = location ev, j_eventDate = eventDate ev,
          j_creatorEmail = creatorEmail ev\<rparr>]"
  by (simp add: postJoinEvent_inserts [OF assms])

theorem postJoinEvent_stores_snapshot_witness:
  "fst (postJoinEvent demoEnv joinedStore
          (joinBody (Some ''000000000000000000000001'') (Some ''d@x.com'')) 1790000000000 8)
     = Done 201 (JoinIdOf 8)
   \<and> events (snd (postJoinEvent demoEnv joinedStore
          (joinBody (Some ''000000000000000000000001'') (Some ''d@x.com'')) 1790000000000 8))
     = [cleanup]
   \<and> joinedEvents (snd (postJoinEvent demoEnv joinedStore
          (joinBody (Some ''000000000000000000000001'') (Some ''d@x.com'')) 1790000000000 8))
     = [cleanupJoin,
        \<lparr>jid = 8, eventId = 1, userEmail = ''d@x.com'', joinedAt = 1790000000000,
          eventTitle = ''Cleanup'', j_eventType = ''Cleanup'',
          j_thumbnail = ''https://placehold.co/600x400'', j_location = ''City Park'',
          j_eventDate = 1577836800000, j_creatorEmail = ''a@x.com''\<rparr>]"
proof -
  let ?b = "joinBody (Some ''000000000000000000000001'') (Some ''d@x.com'')"
  have 1: "b_eventId ?b = Some ''000000000000000000000001''"
    and 2: "''000000000000000000000001'' \<noteq> []"
    and 3: "b_userEmail ?b = Some ''d@x.com''"
    and 4: "''d@x.com'' \<noteq> []"
    by (simp_all add: joinBody_def noBody_def)
  have 5: "isValid demoEnv ''000000000000000000000001''"
    by (simp add: demoEnv_def hexDigit_def)
  have 6: "findEvent (newObjectId demoEnv ''000000000000000000000001'') (events joinedStore)
             = Some cleanup"
    by (simp add: demoEnv_def hexNumber_def hexValue_def findEvent_def joinedStore_def
        cleanup_def)
  have 7: "findJoined (eid cleanup) ''d@x.com'' (joinedEvents joinedStore) = None"
    by (simp add: findJoined_def joinedStore_def cleanupJoin_def)
  have 8: "8 \<notin> set (map jid (joinedEvents joinedStore))"
    by (simp add: joinedStore_def cleanupJoin_def)
  show ?thesis
    using postJoinEvent_stores_snapshot [OF 1 2 3 4 5 6 7 8, of 1790000000000]
    by (simp add: joinedStore_def cleanup_def)
qed

text \<open>
  C10. \<^verbatim>\<open>POST /join-event\<close> never compares the date of the event with the clock: for
  every event of the store, with a well-formed identifier, a non-empty \<^verbatim>\<open>userEmail\<close>,
  no participation stored for the pair and a fresh \<^verbatim>\<open>_id\<close>, the reply is 201 at every
  reading \<open>now\<close> of the clock, be it before, at or after the \<^verbatim>\<open>eventDate\<close> of the
  event; the date is only copied into the participation.
\<close>

theorem postJoinEvent_ignores_eventDate:
  assumes "b_eventId b = Some s" and "s \<noteq> []"
    and "b_userEmail b = Some u" and "u \<noteq> []"
    and "isValid E s"
    and "findEvent (newObjectId E s) (events st) = Some ev"
    and "findJoined (eid ev) u (joinedEvents st) = None"
    and "i \<notin> set (map jid (joinedEvents st))"
  shows "status (fst (postJoinEvent E st b now i)) = 201
     \<and> status (fst (postJoinEvent E st b (eventDate ev) i)) = 201
     \<and> status (fst (postJoinEvent E st b (eventDate ev + 1) i)) = 201
     \<and> j_eventDate (last (joinedEvents (snd (postJoinEvent E st b now i)))) = eventDate ev"
  by (simp add: postJoinEvent_inserts [OF assms])

theorem postJoinEvent_ignores_eventDate_witness:
  "eventDate cleanup < 1790000000000
   \<and> status (fst (postJoinEvent demoEnv demoStore
          (joinBody (Some ''000000000000000000000001'') (Some ''c@x.com'')) 1790000000000 7))
     = 201
   \<and> status (fst (postJoinEvent demoEnv demoStore
          (joinBody (Some ''000000000000000000000001'') (Some ''c@x.com'')) 1577836800000 7))
     = 201
   \<and> status (fst (postJoinEvent demoEnv demoStore
          (joinBody (Some ''000000000000000000000001'') (Some ''c@x.com'')) 1577836800001 7))
     = 201
   \<and> j_eventDate (last (joinedEvents (snd (postJoinEvent demoEnv demoStore
          (joinBody (Some ''000000000000000000000001'') (Some ''c@x.com'')) 1790000000000 7))))
     = 1577836800000"
proof -
  let ?b = "joinBody (Some ''000000000000000000000001'') (Some ''c@x.com'')"
  have 1: "b_eventId ?b = Some ''000000000000000000000001''"
    and 2: "''000000000000000000000001'' \<noteq> []"
    and 3: "b_userEmail ?b = Some ''c@x.com''"
    and 4: "''c@x.com'' \<noteq> []"
    by (simp_all add: joinBody_def noBody_def)
  have 5: "isValid demoEnv ''000000000000000000000001''"
    by (simp add: demoEnv_def hexDigit_def)
  have 6: "findEvent (newObjectId demoEnv ''000000000000000000000001'') (events demoStore)
             = Some cleanup"
    by (simp add: demoEnv_def hexNumber_def hexValue_def findEvent_def demoStore_def
        cleanup_def)
  have 7: "findJoined (eid cleanup) ''c@x.com'' (joinedEvents demoStore) = None"
    by (simp add: findJoined_def demoStore_def)
  have 8: "7 \<notin> set (map jid (joinedEvents demoStore))"
    by (simp add: demoStore_def)
  show ?thesis
    using postJoinEvent_ignores_eventDate [OF 1 2 3 4 5 6 7 8, of 1790000000000]
    by (simp add: cleanup_def)
qed

section \<open>What an update leaves alone\<close>

lemma updateOne_first_match:
  assumes "findEvent i es = Some e"
  shows "\<exists>pre post. es = pre @ e # post \<and> fst (updateOne i f es) = pre @ f e # post"
  using assms
proof (induction es)
  case Nil
  then show ?case by (simp add: findEvent_def)
next
  case (Cons x xs)
  show ?case
  proof (cases "eid x = i")
    case True
    with Cons.prems have "x = e" by (simp add: findEvent_def)
    with True have "x # xs = [] @ e # xs \<and> fst (updateOne i f (x # xs)) = [] @ f e # xs"
      by simp
    then show ?thesis by blast
  next
    case False
    with Cons.prems have "findEvent i xs = Some e" by (simp add: findEvent_def)
    from Cons.IH [OF this] obtain pre post
      where "xs = pre @ e # post" and "fst (updateOne i f xs) = pre @ f e # post"
      by blast
    with False have "x # xs = (x # pre) @ e # post
        \<and> fst (updateOne i f (x # xs)) = (x # pre) @ f e # post"
      by simp
    then show ?thesis by blast
  qed
qed

text \<open>
  C9. When \<^verbatim>\<open>PUT /events/:id\<close> succeeds, the events collection after it is the one
  before it with a single event \<open>e\<close>, whose \<^verbatim>\<open>_id\<close> is the identifier of the request,
  replaced in place by \<open>e\<close> with its title, description, type, thumbnail, location and
  date set from the body: the \<^verbatim>\<open>_id\<close>, \<^verbatim>\<open>creatorEmail\<close> and \<^verbatim>\<open>createdAt\<close> of that
  event, every other event, and the whole joinedEvents collection (with the snapshots
  taken at join time) are as before.
\<close>

theorem putEvent_frame:
  assumes "fst (putEvent E st sid b now) = Done n p"
  shows "\<exists>pre e post d.
       events st = pre @ e # post
     \<and> eid e = newObjectId E sid
     \<and> newDate E (b_eventDate b) = Some d
     \<and> events (snd (putEvent E st sid b now)) =
         pre @ e\<lparr>title := text_of (b_title b), description := text_of (b_description b),
                 eventType := text_of (b_eventType b), thumbnail := text_of (b_thumbnail b),
                 location := text_of (b_location b), eventDate := d\<rparr> # post
     \<and> map eid (events (snd (putEvent E st sid b now))) = map eid (events st)
     \<and> map creatorEmail (events (snd (putEvent E st sid b now))) = map creatorEmail (events st)
     \<and> map createdAt (events (snd (putEvent E st sid b now))) = map createdAt (events st)
     \<and> joinedEvents (snd (putEvent E st sid b now)) = joinedEvents st"
proof -
  let ?i = "newObjectId E sid"
  from assms obtain e d where found: "findEvent ?i (events st) = Some e"
    and date: "newDate E (b_eventDate b) = Some d"
    and after: "snd (putEvent E st sid b now) =
      st\<lparr>events := fst (updateOne ?i
        (\<lambda>e. e\<lparr>title := text_of (b_title b), description := text_of (b_description b),
                eventType := text_of (b_eventType b), thumbnail := text_of (b_thumbnail b),
                location := text_of (b_location b), eventDate := d\<rparr>) (events st))\<rparr>"
    by (auto simp: putEvent_def Let_def split: if_splits option.splits)
  let ?f = "\<lambda>e. e\<lparr>title := text_of (b_title b), description := text_of (b_description b),
                eventType := text_of (b_eventType b), thumbnail := text_of (b_thumbnail b),
                location := text_of (b_location b), eventDate := d\<rparr>"
  from updateOne_first_match [OF found, of ?f] obtain pre post
    where before: "events st = pre @ e # post"
      and upd: "fst (updateOne ?i ?f (events st)) = pre @ ?f e # post"
    by blast
  have id: "eid e = ?i"
    using findEvent_SomeD [OF found] by simp
  have ev: "events (snd (putEvent E st sid b now)) = pre @ ?f e # post"
    by (simp add: after upd)
  have "map eid (pre @ ?f e # post) = map eid (pre @ e # post)"
    and "map creatorEmail (pre @ ?f e # post) = map creatorEmail (pre @ e # post)"
    and "map createdAt (pre @ ?f e # post) = map createdAt (pre @ e # post)"
    by simp_all
  then have frame: "map eid (events (snd (putEvent E st sid b now))) = map eid (events st)"
      "map creatorEmail (events (snd (putEvent E st sid b now))) = map creatorEmail (events st)"
      "map createdAt (events (snd (putEvent E st sid b now))) = map createdAt (events st)"
    by (simp_all only: ev before)
  have joined: "joinedEvents (snd (putEvent E st sid b now)) = joinedEvents st"
    by (simp add: after)
  from before id date ev frame joined show ?thesis
    by blast
qed

theorem putEvent_frame_witness:
  "fst (putEvent demoEnv joinedStore ''000000000000000000000001''
          (editBody (Some ''a@x.com'')) 0) = Done 200 (ModifiedCount 1)
   \<and> (\<exists>pre e post d.
       events joinedStore = pre @ e # post
     \<and> eid e = newObjectId demoEnv ''000000000000000000000001''
     \<and> newDate demoEnv (b_eventDate (editBody (Some ''a@x.com''))) = Some d
     \<and> events (snd (putEvent demoEnv joinedStore ''000000000000000000000001''
          (editBody (Some ''a@x.com'')) 0)) =
         pre @ e\<lparr>title := text_of (b_title (editBody (Some ''a@x.com''))),
                 description := text_of (b_description (editBody (Some ''a@x.com''))),
                 eventType := text_of (b_eventType (editBody (Some ''a@x.com''))),
                 thumbnail := text_of (b_thumbnail (editBody (Some ''a@x.com''))),
                 location := text_of (b_location (editBody (Some ''a@x.com''))),
                 eventDate := d\<rparr> # post
     \<and> map eid (events (snd (putEvent demoEnv joinedStore ''000000000000000000000001''
          (editBody (Some ''a@x.com'')) 0))) = map eid (events joinedStore)
     \<and> map creatorEmail (events (snd (putEvent demoEnv joinedStore
          ''000000000000000000000001'' (editBody (Some ''a@x.com'')) 0)))
         = map creatorEmail (events joinedStore)
     \<and> map createdAt (events (snd (putEvent demoEnv joinedStore
          ''000000000000000000000001'' (editBody (Some ''a@x.com'')) 0)))
         = map createdAt (events joinedStore)
     \<and> joinedEvents (snd (putEvent demoEnv joinedStore ''000000000000000000000001''
          (editBody (Some ''a@x.com'')) 0)) = joinedEvents joinedStore)"
proof -
  have h: "fst (putEvent demoEnv joinedStore ''000000000000000000000001''
          (editBody (Some ''a@x.com'')) 0) = Done 200 (ModifiedCount 1)"
    by (simp add: putEvent_def demoEnv_def hexDigit_def hexNumber_def hexValue_def
        findEvent_def joinedStore_def cleanup_def editBody_def noBody_def)
  show ?thesis
    by (rule conjI [OF h putEvent_frame [OF h]])
qed

section \<open>Creating an event\<close>

lemma findEvent_append_fresh:
  "i \<notin> set (map eid es) \<Longrightarrow> eid e = i \<Longrightarrow> findEvent i (es @ [e]) = Some e"
  unfolding findEvent_def by (induction es) auto

lemma postEvent_400_iff:
  "(\<exists>m. fst (postEvent E st b now t i) = Fail 400 m) \<longleftrightarrow>
     (falsy (b_title b) \<or> falsy (b_description b) \<or> falsy (b_eventType b)
      \<or> falsy (b_thumbnail b) \<or> falsy (b_location b) \<or> falsy (b_eventDate b)
      \<or> falsy (b_creatorEmail b)
      \<or> newDate E (b_eventDate b) = None
      \<or> (\<exists>d. newDate E (b_eventDate b) = Some d \<and> d \<le> now))"
  by (auto simp: postEvent_def split: option.splits)

lemma postEvent_inserts:
  assumes "\<not> falsy (b_title b)" "\<not> falsy (b_description b)" "\<not> falsy (b_eventType b)"
    "\<not> falsy (b_thumbnail b)" "\<not> falsy (b_location b)" "\<not> falsy (b_eventDate b)"
    "\<not> falsy (b_creatorEmail b)" "newDate E (b_eventDate b) = Some d" "now < d"
    "i \<notin> set (map eid (events st))"
  shows "postEvent E st b now t i =
     (Done 201 (EventIdOf i), st\<lparr>events := events st @ [newEventDoc b d t i]\<rparr>)"
  using assms by (simp add: postEvent_def insertEvent_def newEventDoc_def)

lemma getEvent_after_insert:
  assumes "i \<notin> set (map eid (events st))" "isValid E sid" "newObjectId E sid = i"
  shows "getEvent E (st\<lparr>events := events st @ [newEventDoc b d t i]\<rparr>) sid
     = Done 200 (EventDoc (newEventDoc b d t i))"
proof -
  have "eid (newEventDoc b d t i) = i" by (simp add: newEventDoc_def)
  from findEvent_append_fresh [OF assms(1) this] show ?thesis
    using assms(2,3) by (simp add: getEvent_def)
qed

lemma Some_text_of: "\<not> falsy f \<Longrightarrow> Some (text_of f) = f"
  by (cases f) simp_all

text \<open>
  C6. \<^verbatim>\<open>POST /events\<close> answers 400 exactly when one of the seven fields is missing or
  empty, or \<^verbatim>\<open>eventDate\<close> does not parse to a date, or the date is not later than the
  reading \<open>now\<close> of the clock. Otherwise, the \<^verbatim>\<open>_id\<close> \<open>i\<close> of the driver being fresh, it
  answers 201 with \<open>i\<close> and appends one event: its fields are those of the body, its
  date the parsed one, and its \<^verbatim>\<open>createdAt\<close> the reading \<open>t\<close> that the handler takes of
  the clock for it. \<^verbatim>\<open>GET /events/:id\<close> on the store after it, with a well-formed string
  of \<open>i\<close>, answers 200 with that event, whose \<^verbatim>\<open>createdAt\<close> is at most every later
  reading \<open>t'\<close> of the clock.
\<close>

theorem postEvent_validates_then_inserts:
  "((\<exists>m. fst (postEvent E st b now t i) = Fail 400 m) \<longleftrightarrow>
     (falsy (b_title b) \<or> falsy (b_description b) \<or> falsy (b_eventType b)
      \<or> falsy (b_thumbnail b) \<or> falsy (b_location b) \<or> falsy (b_eventDate b)
      \<or> falsy (b_creatorEmail b)
      \<or> newDate E (b_eventDate b) = None
      \<or> (\<exists>d. newDate E (b_eventDate b) = Some d \<and> d \<le> now)))
   \<and> (\<forall>d. \<not> falsy (b_title b) \<and> \<not> falsy (b_description b) \<and> \<not> falsy (b_eventType b)
        \<and> \<not> falsy (b_thumbnail b) \<and> \<not> falsy (b_location b) \<and> \<not> falsy (b_eventDate b)
        \<and> \<not> falsy (b_creatorEmail b)
        \<and> newDate E (b_eventDate b) = Some d \<and> now < d
        \<and> i \<notin> set (map eid (events st)) \<longrightarrow>
       postEvent E st b now t i =
         (Done 201 (EventIdOf i), st\<lparr>events := events st @ [newEventDoc b d t i]\<rparr>)
       \<and> Some (title (newEventDoc b d t i)) = b_title b
       \<and> Some (description (newEventDoc b d t i)) = b_description b
       \<and> Some (eventType (newEventDoc b d t i)) = b_eventType b
       \<and> Some (thumbnail (newEventDoc b d t i)) = b_thumbnail b
       \<and> Some (location (newEventDoc b d t i)) = b_location b
       \<and> eventDate (newEventDoc b d t i) = d
       \<and> Some (creatorEmail (newEventDoc b d t i)) = b_creatorEmail b
       \<and> createdAt (newEventDoc b d t i) = t)
   \<and> (\<forall>d. \<not> falsy (b_title b) \<and> \<not> falsy (b_description b) \<and> \<not> falsy (b_eventType b)
        \<and> \<not> falsy (b_thumbnail b) \<and> \<not> falsy (b_location b) \<and> \<not> falsy (b_eventDate b)
        \<and> \<not> falsy (b_creatorEmail b)
        \<and> newDate E (b_eventDate b) = Some d \<and> now < d
        \<and> i \<notin> set (map eid (events st))
        \<and> isValid E sid \<and> newObjectId E sid = i \<and> t \<le> t' \<longrightarrow>
       getEvent E (snd (postEvent E st b now t i)) sid
         = Done 200 (EventDoc (newEventDoc b d t i))
       \<and> createdAt (newEventDoc b d t i) \<le> t')"
proof (intro conjI allI impI)
  show "(\<exists>m. fst (postEvent E st b now t i) = Fail 400 m) \<longleftrightarrow>
     (falsy (b_title b) \<or> falsy (b_description b) \<or> falsy (b_eventType b)
      \<or> falsy (b_thumbnail b) \<or> falsy (b_location b) \<or> falsy (b_eventDate b)
      \<or> falsy (b_creatorEmail b)
      \<or> newDate E (b_eventDate b) = None
      \<or> (\<exists>d. newDate E (b_eventDate b) = Some d \<and> d \<le> now))"
    by (rule postEvent_400_iff)
next
  fix d
  assume h: "\<not> falsy (b_title b) \<and> \<not> falsy (b_description b) \<and> \<not> falsy (b_eventType b)
        \<and> \<not> falsy (b_thumbnail b) \<and> \<not> falsy (b_location b) \<and> \<not> falsy (b_eventDate b)
        \<and> \<not> falsy (b_creatorEmail b)
        \<and> newDate E (b_eventDate b) = Some d \<and> now < d
        \<and> i \<notin> set (map eid (events st))"
  then have ins: "postEvent E st b now t i =
         (Done 201 (EventIdOf i), st\<lparr>events := events st @ [newEventDoc b d t i]\<rparr>)"
    by (intro postEvent_inserts) simp_all
  show "postEvent E st b now t i =
         (Done 201 (EventIdOf i), st\<lparr>events := events st @ [newEventDoc b d t i]\<rparr>)"
    by (rule ins)
  from h show "Some (title (newEventDoc b d t i)) = b_title b"
    and "Some (description (newEventDoc b d t i)) = b_description b"
    and "Some (eventType (newEventDoc b d t i)) = b_eventType b"
    and "Some (thumbnail (newEventDoc b d t i)) = b_thumbnail b"
    and "Some (location (newEventDoc b d t i)) = b_location b"
    and "Some (creatorEmail (newEventDoc b d t i)) = b_creatorEmail b"
    by (simp_all add: newEventDoc_def Some_text_of)
  show "eventDate (newEventDoc b d t i) = d" and "createdAt (newEventDoc b d t i) = t"
    by (simp_all add: newEventDoc_def)
next
  fix d
  assume h: "\<not> falsy (b_title b) \<and> \<not> falsy (b_description b) \<and> \<not> falsy (b_eventType b)
        \<and> \<not> falsy (b_thumbnail b) \<and> \<not> falsy (b_location b) \<and> \<not> falsy (b_eventDate b)
        \<and> \<not> falsy (b_creatorEmail b)
        \<and> newDate E (b_eventDate b) = Some d \<and> now < d
        \<and> i \<notin> set (map eid (events st))
        \<and> isValid E sid \<and> newObjectId E sid = i \<and> t \<le> t'"
  then have ins: "postEvent E st b now t i =
         (Done 201 (EventIdOf i), st\<lparr>events := events st @ [newEventDoc b d t i]\<rparr>)"
    by (intro postEvent_inserts) simp_all
  from h show "getEvent E (snd (postEvent E st b now t i)) sid
              = Done 200 (EventDoc (newEventDoc b d t i))"
    by (simp add: ins getEvent_after_insert)
  from h show "createdAt (newEventDoc b d t i) \<le> t'"
    by (simp add: newEventDoc_def)
qed

theorem postEvent_validates_then_inserts_witness:
  "(\<exists>m. fst (postEvent demoEnv demoStore (plantBody\<lparr>b_location := Some []\<rparr>)
            1790000000000 1790000000005 2) = Fail 400 m)
   \<and> (\<exists>m. fst (postEvent demoEnv demoStore plantBody
            1893456000000 1893456000005 2) = Fail 400 m)
   \<and> postEvent demoEnv demoStore plantBody 1790000000000 1790000000005 2
       = (Done 201 (EventIdOf 2),
          demoStore\<lparr>events := events demoStore @
            [newEventDoc plantBody 1893456000000 1790000000005 2]\<rparr>)
   \<and> title (newEventDoc plantBody 1893456000000 1790000000005 2) = ''Tree plantation''
   \<and> creatorEmail (newEventDoc plantBody 1893456000000 1790000000005 2) = ''b@x.com''
   \<and> createdAt (newEventDoc plantBody 1893456000000 1790000000005 2) = 1790000000005
   \<and> getEvent demoEnv
        (snd (postEvent demoEnv demoStore plantBody 1790000000000 1790000000005 2))
        ''000000000000000000000002''
       = Done 200 (EventDoc (newEventDoc plantBody 1893456000000 1790000000005 2))
   \<and> createdAt (newEventDoc plantBody 1893456000000 1790000000005 2) \<le> 1790000000009"
proof -
  have empty: "falsy (b_location (plantBody\<lparr>b_location := Some []\<rparr>))"
    by simp
  have "\<exists>m. fst (postEvent demoEnv demoStore (plantBody\<lparr>b_location := Some []\<rparr>)
            1790000000000 1790000000005 2) = Fail 400 m"
    using empty
      postEvent_validates_then_inserts [where E = demoEnv and st = demoStore
        and b = "plantBody\<lparr>b_location := Some []\<rparr>" and now = 1790000000000
        and t = 1790000000005 and i = 2]
    by blast
  moreover
  have date: "newDate demoEnv (b_eventDate plantBody) = Some 1893456000000"
    by (simp add: demoEnv_def plantBody_def noBody_def)
  have "\<exists>m. fst (postEvent demoEnv demoStore plantBody
            1893456000000 1893456000005 2) = Fail 400 m"
    using date
      postEvent_validates_then_inserts [where E = demoEnv and st = demoStore
        and b = plantBody and now = 1893456000000 and t = 1893456000005 and i = 2]
    by auto
  moreover
  have fields: "\<not> falsy (b_title plantBody) \<and> \<not> falsy (b_description plantBody)
      \<and> \<not> falsy (b_eventType plantBody) \<and> \<not> falsy (b_thumbnail plantBody)
      \<and> \<not> falsy (b_location plantBody) \<and> \<not> falsy (b_eventDate plantBody)
      \<and> \<not> falsy (b_creatorEmail plantBody)"
    by (simp add: plantBody_def noBody_def)
  have sender: "b_title plantBody = Some ''Tree plantation''"
      "b_creatorEmail plantBody = Some ''b@x.com''"
    by (simp_all add: plantBody_def noBody_def)
  have clock: "(1790000000000 :: int) < 1893456000000 \<and> (1790000000005 :: int) \<le> 1790000000009"
    by simp
  have fresh: "2 \<notin> set (map eid (events demoStore))"
    by (simp add: demoStore_def cleanup_def)
  have ident: "isValid demoEnv ''000000000000000000000002''
      \<and> newObjectId demoEnv ''000000000000000000000002'' = 2"
    by (simp add: demoEnv_def hexDigit_def hexNumber_def hexValue_def)
  have created: "postEvent demoEnv demoStore plantBody 1790000000000 1790000000005 2
       = (Done 201 (EventIdOf 2),
          demoStore\<lparr>events := events demoStore @
            [newEventDoc plantBody 1893456000000 1790000000005 2]\<rparr>)"
    and same: "Some (title (newEventDoc plantBody 1893456000000 1790000000005 2))
         = b_title plantBody"
      "Some (creatorEmail (newEventDoc plantBody 1893456000000 1790000000005 2))
         = b_creatorEmail plantBody"
    and stamp: "createdAt (newEventDoc plantBody 1893456000000 1790000000005 2) = 1790000000005"
    and read: "getEvent demoEnv
        (snd (postEvent demoEnv demoStore plantBody 1790000000000 1790000000005 2))
        ''000000000000000000000002''
       = Done 200 (EventDoc (newEventDoc plantBody 1893456000000 1790000000005 2))"
      "createdAt (newEventDoc plantBody 1893456000000 1790000000005 2) \<le> 1790000000009"
    using date fields fresh ident clock
      postEvent_validates_then_inserts [where E = demoEnv and st = demoStore
        and b = plantBody and now = 1790000000000 and t = 1790000000005 and i = 2
        and sid = "''000000000000000000000002''" and t' = 1790000000009]
    by blast+
  have "title (newEventDoc plantBody 1893456000000 1790000000005 2) = ''Tree plantation''"
    and "creatorEmail (newEventDoc plantBody 1893456000000 1790000000005 2) = ''b@x.com''"
    using same by (simp_all add: sender)
  ultimately show ?thesis
    using created stamp read by blast
qed

section \<open>Joining once\<close>

lemma joinedEvents_postEvent:
  "joinedEvents (snd (postEvent E st b now t i)) = joinedEvents st"
  by (simp add: postEvent_def split: option.splits)

lemma joinedEvents_putEvent:
  "joinedEvents (snd (putEvent E st sid b now)) = joinedEvents st"
  by (simp add: putEvent_def Let_def split: option.splits)

lemma uniquePairs_postJoinEvent:
  assumes "uniquePairs st"
  shows "uniquePairs (snd (postJoinEvent E st b now i))"
  using assms
  by (auto simp: uniquePairs_def postJoinEvent_def insertJoined_def findJoined_None_iff
      split: option.splits)

lemma uniquePairs_handle:
  "uniquePairs st \<Longrightarrow> uniquePairs (snd (handle E st r))"
  by (cases r)
    (simp_all add: uniquePairs_postJoinEvent,
     simp_all add: uniquePairs_def joinedEvents_postEvent joinedEvents_putEvent)

lemma uniquePairs_serve:
  "uniquePairs st \<Longrightarrow> uniquePairs (serve E st rs)"
  by (induction rs arbitrary: st) (simp_all add: uniquePairs_handle)

lemma distinct_at_most_one:
  "distinct (map f xs) \<Longrightarrow> length (filter (\<lambda>x. f x = k) xs) \<le> 1"
proof (induction xs)
  case Nil
  then show ?case by simp
next
  case (Cons x xs)
  show ?case
  proof (cases "f x = k")
    case True
    with Cons.prems have "k \<notin> f ` set xs" by simp
    then have "filter (\<lambda>x. f x = k) xs = []"
      by (auto simp: filter_empty_conv)
    with True show ?thesis by simp
  next
    case False
    with Cons show ?thesis by simp
  qed
qed

lemma uniquePairs_at_most_one:
  assumes "uniquePairs st"
  shows "length (filter (\<lambda>j. eventId j = e \<and> userEmail j = u) (joinedEvents st)) \<le> 1"
proof -
  have "length (filter (\<lambda>j. (eventId j, userEmail j) = (e, u)) (joinedEvents st)) \<le> 1"
    using assms unfolding uniquePairs_def by (rule distinct_at_most_one)
  then show ?thesis by simp
qed

lemma find_append_None: "find P xs = None \<Longrightarrow> find P (xs @ ys) = find P ys"
  by (induction xs) (auto split: if_splits)

lemma findJoined_append_new:
  assumes "findJoined e u js = None" and "eventId j = e" and "userEmail j = u"
  shows "findJoined e u (js @ [j]) = Some j"
  using assms unfolding findJoined_def by (simp add: find_append_None)

lemma postJoinEvent_again:
  assumes "b_eventId b = Some s" and "s \<noteq> []"
    and "b_userEmail b = Some u" and "u \<noteq> []"
    and "isValid E s"
    and "findEvent (newObjectId E s) (events st) = Some ev"
    and "findJoined (eid ev) u (js @ [j]) = Some j"
  shows "postJoinEvent E (st\<lparr>joinedEvents := js @ [j]\<rparr>) b now i
     = (Fail 400 ''You have already joined this event.'', st\<lparr>joinedEvents := js @ [j]\<rparr>)"
  using assms by (simp add: postJoinEvent_def)

lemma getJoined_one:
  assumes "findJoined e u js = None" and "eventId j = e" and "userEmail j = u" and "u \<noteq> []"
  shows "\<exists>l. getJoined (st\<lparr>joinedEvents := js @ [j]\<rparr>) (Some u) = Done 200 (JoinedList (length l) l)
     \<and> filter (\<lambda>x. eventId x = e) l = [j]"
proof -
  let ?l = "sortJoined (filter (\<lambda>x. userEmail x = u) (js @ [j]))"
  have "filter (\<lambda>x. eventId x = e) (filter (\<lambda>x. userEmail x = u) js) = []"
    using assms(1) by (auto simp: findJoined_None_iff filter_empty_conv)
  then have "filter (\<lambda>x. eventId x = e) (filter (\<lambda>x. userEmail x = u) (js @ [j])) = [j]"
    using assms(2,3) by simp
  then have "filter (\<lambda>x. eventId x = e) ?l = [j]"
    by (simp add: sortJoined_def filter_sort del: filter_append filter.simps filter_filter)
  moreover have "getJoined (st\<lparr>joinedEvents := js @ [j]\<rparr>) (Some u)
      = Done 200 (JoinedList (length ?l) ?l)"
    using assms(4) by (simp add: getJoined_def Let_def)
  ultimately show ?thesis by blast
qed

text \<open>
  C1. In every store that the server reaches from the empty one by answering requests
  one after the other, each pair of an event and a user has at most one participation:
  the uniqueness of the pairs is kept by every request, and it bounds the number of
  participations of a pair by one. When \<^verbatim>\<open>POST /join-event\<close> is sent twice in a row with
  the same well-formed \<^verbatim>\<open>eventId\<close> of an event of the store and the same non-empty
  \<^verbatim>\<open>userEmail\<close>, no participation being stored for the pair before, the first reply is
  201, the second the 400 of the conflict, and \<^verbatim>\<open>GET /joined\<close> for that user then lists
  exactly one participation in that event.
\<close>

theorem join_once:
  "(\<forall>e w. length (filter (\<lambda>j. eventId j = e \<and> userEmail j = w)
             (joinedEvents (serve E emptyStore rs))) \<le> 1)
   \<and> (uniquePairs st \<longrightarrow>
        uniquePairs (snd (handle E st r))
        \<and> (\<forall>e w. length (filter (\<lambda>j. eventId j = e \<and> userEmail j = w)
                    (joinedEvents st)) \<le> 1))
   \<and> (b_eventId b = Some s \<and> s \<noteq> [] \<and> b_userEmail b = Some u \<and> u \<noteq> []
        \<and> isValid E s
        \<and> findEvent (newObjectId E s) (events st) = Some ev
        \<and> findJoined (eid ev) u (joinedEvents st) = None
        \<and> i \<notin> set (map jid (joinedEvents st)) \<longrightarrow>
       fst (postJoinEvent E st b now i) = Done 201 (JoinIdOf i)
       \<and> fst (postJoinEvent E (snd (postJoinEvent E st b now i)) b now' i')
           = Fail 400 ''You have already joined this event.''
       \<and> (\<exists>l. getJoined (snd (postJoinEvent E (snd (postJoinEvent E st b now i)) b now' i'))
                 (b_userEmail b) = Done 200 (JoinedList (length l) l)
             \<and> length (filter (\<lambda>j. eventId j = eid ev) l) = 1))"
proof (intro conjI allI impI)
  fix e w
  have "uniquePairs emptyStore"
    by (simp add: uniquePairs_def emptyStore_def)
  then have "uniquePairs (serve E emptyStore rs)"
    by (rule uniquePairs_serve)
  then show "length (filter (\<lambda>j. eventId j = e \<and> userEmail j = w)
             (joinedEvents (serve E emptyStore rs))) \<le> 1"
    by (rule uniquePairs_at_most_one)
next
  assume "uniquePairs st"
  then show "uniquePairs (snd (handle E st r))"
    by (rule uniquePairs_handle)
next
  fix e w
  assume "uniquePairs st"
  then show "length (filter (\<lambda>j. eventId j = e \<and> userEmail j = w) (joinedEvents st)) \<le> 1"
    by (rule uniquePairs_at_most_one)
next
  assume h: "b_eventId b = Some s \<and> s \<noteq> [] \<and> b_userEmail b = Some u \<and> u \<noteq> []
        \<and> isValid E s
        \<and> findEvent (newObjectId E s) (events st) = Some ev
        \<and> findJoined (eid ev) u (joinedEvents st) = None
        \<and> i \<notin> set (map jid (joinedEvents st))"
  let ?j = "\<lparr>jid = i, eventId = eid ev, userEmail = u, joinedAt = now,
          eventTitle = title ev, j_eventType = eventType ev, j_thumbnail = thumbnail ev,
          j_location = location ev, j_eventDate = eventDate ev,
          j_creatorEmail = creatorEmail ev\<rparr>"
  let ?st = "st\<lparr>joinedEvents := joinedEvents st @ [?j]\<rparr>"
  from h have 1: "b_eventId b = Some s" and 2: "s \<noteq> []"
    and 3: "b_userEmail b = Some u" and 4: "u \<noteq> []" and 5: "isValid E s"
    and 6: "findEvent (newObjectId E s) (events st) = Some ev"
    and 7: "findJoined (eid ev) u (joinedEvents st) = None"
    and 8: "i \<notin> set (map jid (joinedEvents st))"
    by simp_all
  have first: "postJoinEvent E st b now i = (Done 201 (JoinIdOf i), ?st)"
    by (rule postJoinEvent_inserts [OF 1 2 3 4 5 6 7 8])
  have new: "findJoined (eid ev) u (joinedEvents st @ [?j]) = Some ?j"
    by (rule findJoined_append_new [OF 7]) simp_all
  have second: "postJoinEvent E ?st b now' i'
      = (Fail 400 ''You have already joined this event.'', ?st)"
    by (rule postJoinEvent_again [OF 1 2 3 4 5 6 new])
  have "\<exists>l. getJoined ?st (Some u) = Done 200 (JoinedList (length l) l)
      \<and> filter (\<lambda>x. eventId x = eid ev) l = [?j]"
    by (rule getJoined_one [OF 7 _ _ 4]) simp_all
  then obtain l where l: "getJoined ?st (Some u) = Done 200 (JoinedList (length l) l)"
      "filter (\<lambda>x. eventId x = eid ev) l = [?j]"
    by blast
  show "fst (postJoinEvent E st b now i) = Done 201 (JoinIdOf i)"
    by (simp add: first)
  show "fst (postJoinEvent E (snd (postJoinEvent E st b now i)) b now' i')
           = Fail 400 ''You have already joined this event.''"
    by (simp add: first second)
  from 3 l show "\<exists>l. getJoined (snd (postJoinEvent E (snd (postJoinEvent E st b now i)) b now' i'))
                 (b_userEmail b) = Done 200 (JoinedList (length l) l)
             \<and> length (filter (\<lambda>j. eventId j = eid ev) l) = 1"
    by (auto simp: first second)
qed

theorem join_once_witness:
  "(\<forall>e u. length (filter (\<lambda>j. eventId j = e \<and> userEmail j = u)
       (joinedEvents (serve demoEnv emptyStore
          [PostEvent plantBody 1790000000000 1790000000005 2,
           PostJoinEvent (joinBody (Some ''000000000000000000000002'') (Some ''c@x.com''))
             1790000000010 3,
           PostJoinEvent (joinBody (Some ''000000000000000000000002'') (Some ''c@x.com''))
             1790000000020 4]))) \<le> 1)
   \<and> uniquePairs (snd (handle demoEnv joinedStore
        (PostJoinEvent (joinBody (Some ''000000000000000000000001'') (Some ''c@x.com''))
           1790000000020 8)))
   \<and> fst (postJoinEvent demoEnv demoStore
        (joinBody (Some ''000000000000000000000001'') (Some ''c@x.com'')) 1790000000010 7)
       = Done 201 (JoinIdOf 7)
   \<and> fst (postJoinEvent demoEnv
        (snd (postJoinEvent demoEnv demoStore
           (joinBody (Some ''000000000000000000000001'') (Some ''c@x.com'')) 1790000000010 7))
        (joinBody (Some ''000000000000000000000001'') (Some ''c@x.com'')) 1790000000020 8)
       = Fail 400 ''You have already joined this event.''
   \<and> (\<exists>l. getJoined
        (snd (postJoinEvent demoEnv
           (snd (postJoinEvent demoEnv demoStore
              (joinBody (Some ''000000000000000000000001'') (Some ''c@x.com''))
              1790000000010 7))
           (joinBody (Some ''000000000000000000000001'') (Some ''c@x.com''))
           1790000000020 8))
        (b_userEmail (joinBody (Some ''000000000000000000000001'') (Some ''c@x.com'')))
          = Done 200 (JoinedList (length l) l)
        \<and> length (filter (\<lambda>j. eventId j = eid cleanup) l) = 1)"
proof -
  let ?b = "joinBody (Some ''000000000000000000000001'') (Some ''c@x.com'')"
  let ?rs = "[PostEvent plantBody 1790000000000 1790000000005 2,
           PostJoinEvent (joinBody (Some ''000000000000000000000002'') (Some ''c@x.com''))
             1790000000010 3,
           PostJoinEvent (joinBody (Some ''000000000000000000000002'') (Some ''c@x.com''))
             1790000000020 4]"
  note T = join_once [where E = demoEnv and rs = ?rs and st = joinedStore
      and r = "PostJoinEvent ?b 1790000000020 8"]
  note U = join_once [where E = demoEnv and st = demoStore and b = ?b
      and s = "''000000000000000000000001''" and u = "''c@x.com''" and ev = cleanup
      and i = 7 and now = 1790000000010 and now' = 1790000000020 and i' = 8]
  have inv: "uniquePairs joinedStore"
    by (simp add: uniquePairs_def joinedStore_def)
  have pre: "b_eventId ?b = Some ''000000000000000000000001''
      \<and> ''000000000000000000000001'' \<noteq> []
      \<and> b_userEmail ?b = Some ''c@x.com'' \<and> ''c@x.com'' \<noteq> []
      \<and> isValid demoEnv ''000000000000000000000001''
      \<and> findEvent (newObjectId demoEnv ''000000000000000000000001'') (events demoStore)
          = Some cleanup
      \<and> findJoined (eid cleanup) ''c@x.com'' (joinedEvents demoStore) = None
      \<and> 7 \<notin> set (map jid (joinedEvents demoStore))"
    by (simp add: joinBody_def noBody_def demoEnv_def hexDigit_def hexNumber_def hexValue_def
        findEvent_def findJoined_def demoStore_def cleanup_def)
  from T inv U pre show ?thesis
    by blast
qed

end
